theory Spec2Isabelle
  imports Main "HOL-Library.Word"
begin

section \<open>Data model of \<open>webview_proc.py\<close>\<close>

text \<open>
  Python values that cross the channel as \<open>Response.result\<close> (typed \<open>Any\<close> in the
  source): \<open>None\<close>, booleans, integers, strings and lists of such values.
\<close>

datatype pyval = PNone | PBool bool | PInt int | PStr string | PList "pyval list"

text \<open>Python truthiness, as used by \<open>if result\<close>.\<close>

fun truthy :: "pyval \<Rightarrow> bool" where
  "truthy PNone = False"
| "truthy (PBool b) = b"
| "truthy (PInt i) = (i \<noteq> 0)"
| "truthy (PStr s) = (s \<noteq> [])"
| "truthy (PList xs) = (xs \<noteq> [])"

text \<open>
  The exceptions the controlling process can see. Each carries its message, the
  value of \<open>str(e)\<close>. \<open>PicklingError\<close> and \<open>TypeError\<close> are what \<open>pickle\<close>
  raises for an object it cannot serialise.
\<close>

datatype exn =
  RuntimeError string | WebViewException string | TypeError string | PicklingError string

text \<open>
  How a call of the controlling process ends: it returns a value, it raises, or it stays
  blocked in \<open>recv\<close> for ever because no further message arrives.
\<close>

datatype 'a completion = Returned 'a | Raised exn | Blocked

text \<open>A type name in single quotes, as Python's messages print it.\<close>

definition quoted :: "string \<Rightarrow> string" where
  "quoted s = CHR 0x27 # s @ [CHR 0x27]"

text \<open>
  \<open>result[0]\<close> on a truthy value: the first element of a list, the first character of a
  string, a \<open>TypeError\<close> on a number or a boolean. The source evaluates it only behind
  \<open>if result\<close>, so the falsy values are mapped to \<open>None\<close> here as \<open>pick_file\<close> does.
\<close>

fun first_or_none :: "pyval \<Rightarrow> pyval completion" where
  "first_or_none (PList (x # xs)) = Returned x"
| "first_or_none (PStr (c # cs)) = Returned (PStr [c])"
| "first_or_none (PBool True) = Raised (TypeError (quoted ''bool'' @ '' object is not subscriptable''))"
| "first_or_none (PInt i) =
     (if i \<noteq> 0 then Raised (TypeError (quoted ''int'' @ '' object is not subscriptable'')) else Returned PNone)"
| "first_or_none v = Returned PNone"

text \<open>
  \<open>file_contents\<close> of \<open>save_file\<close>, which the annotation says is \<open>str | bytes\<close> and
  which nothing checks:
  \<^item> a \<open>str\<close>, as its code points;
  \<^item> a bytes-like object that can be pickled (\<open>bytes\<close>, \<open>bytearray\<close>), as its bytes;
  \<^item> any other object that can be pickled, as its type name (\<open>tuple\<close> for \<open>()\<close>);
  \<^item> an object that cannot be pickled, as the exception \<open>pickle\<close> raises for it and, when
    it is bytes-like (a \<open>memoryview\<close>), its bytes, else (a generator) its type name.
\<close>

type_synonym byte = "8 word"

datatype contents =
    StrContents "nat list"
  | BytesContents "byte list"
  | OtherContents string
  | UnpicklableContents exn "byte list + string"

text \<open>\<open>class Response\<close>: \<open>request_id: int = 0\<close>, \<open>result: Any = None\<close>,
  \<open>error: str | None = None\<close>.\<close>

record Response =
  request_id :: int
  result :: pyval
  error :: "string option"

text \<open>The subclasses of \<open>Request\<close>; every variant carries \<open>request_id\<close> first.\<close>

datatype request =
    CloseRequest (cmd_id: int)
  | ResizeRequest (cmd_id: int) int int
  | SetTitleRequest (cmd_id: int) string
  | ToggleFullscreenRequest (cmd_id: int)
  | SetMaximizedRequest (cmd_id: int) bool
  | PickFileRequest (cmd_id: int) "string list" bool
  | SaveFileRequest (cmd_id: int) contents string "string option"
  | EvaluateJavascriptRequest (cmd_id: int) string
  | PingRequest (cmd_id: int)

text \<open>
  \<open>parent_conn.send(request_obj)\<close> pickles the request before anything is written to the
  channel. The fields are of the types their annotations give, except \<open>file_contents\<close>:
  the exception of the pickling, if there is one.
\<close>

fun unpicklable :: "request \<Rightarrow> exn option" where
  "unpicklable (SaveFileRequest n (UnpicklableContents e x) file_name directory) = Some e"
| "unpicklable req = None"

section \<open>The controlling process\<close>

text \<open>
  \<open>multiprocessing.Process\<close> handle as the controller sees it: whether
  \<open>is_alive()\<close> holds, and the \<open>sys.argv\<close> that was in force when the process was
  started (what the child inherits).
\<close>

record Process =
  running :: bool
  spawn_argv :: "string list"

text \<open>
  The state of the controlling process: \<open>sys.argv\<close>, the fields \<open>process\<close>
  (here \<open>process_handle\<close>),
  \<open>_is_alive\<close> and \<open>_request_id\<close> of \<open>WebViewProcess\<close>, and \<open>parent_conn\<close> as the
  list of messages sent on it so far and the list of messages that will still arrive on
  it, in order. When the second list is used up, \<open>recv\<close> blocks: the controller keeps
  \<open>child_conn\<close> open itself, so no end-of-file is ever delivered.
\<close>

record controller =
  sys_argv :: "string list"
  process_handle :: "Process option"
  p_is_alive :: bool
  p_request_id :: int
  sent :: "request list"
  inbox :: "Response list"

text \<open>A freshly constructed \<open>WebViewProcess\<close>: the dataclass defaults.\<close>

definition new_controller :: "string list \<Rightarrow> Response list \<Rightarrow> controller" where
  "new_controller argv msgs =
     \<lparr>sys_argv = argv, process_handle = None, p_is_alive = False, p_request_id = 0,
      sent = [], inbox = msgs\<rparr>"

definition new_request_id :: "controller \<Rightarrow> int \<times> controller" where
  "new_request_id s = (p_request_id s + 1, s\<lparr>p_request_id := p_request_id s + 1\<rparr>)"

text \<open>\<open>if response.error\<close>: a string that is present and not empty.\<close>

fun error_set :: "string option \<Rightarrow> bool" where
  "error_set None = False"
| "error_set (Some e) = (e \<noteq> [])"

text \<open>
  The \<open>while True\<close> loop of \<open>_send_command\<close> over the messages still to arrive:
  the outcome and the messages left unread.
\<close>

fun await_response :: "int \<Rightarrow> Response list \<Rightarrow> pyval completion \<times> Response list" where
  "await_response n [] = (Blocked, [])"
| "await_response n (r # rs) =
     (if request_id r = n then
        (case error r of
           Some e \<Rightarrow> if e \<noteq> [] then (Raised (WebViewException e), rs) else (Returned (result r), rs)
         | None \<Rightarrow> (Returned (result r), rs))
      else await_response n rs)"

text \<open>
  \<open>_send_command\<close>. A request that can be pickled is taken to reach the channel: the
  \<open>send\<close> completes.
\<close>

definition send_command :: "request \<Rightarrow> controller \<Rightarrow> pyval completion \<times> controller" where
  "send_command request_obj s =
     (if \<not> p_is_alive s then (Raised (RuntimeError ''Webview process is not running.''), s)
      else
        case unpicklable request_obj of
          Some e \<Rightarrow> (Raised e, s)
        | None \<Rightarrow>
            let s1 = s\<lparr>sent := sent s @ [request_obj]\<rparr>;
                (out, rest) = await_response (cmd_id request_obj) (inbox s1)
            in (out, s1\<lparr>inbox := rest\<rparr>))"

text \<open>
  The \<open>while True\<close> loop of \<open>_wait_for_window\<close>, for the Ping's id \<open>n\<close>. The message of
  the \<open>RuntimeError\<close> formats \<open>response.error\<close>, which prints as \<open>None\<close> when absent.
\<close>

fun await_window :: "int \<Rightarrow> Response list \<Rightarrow> pyval completion \<times> Response list" where
  "await_window n [] = (Blocked, [])"
| "await_window n (r # rs) =
     (if request_id r = 0 then
        (Raised (RuntimeError (''Webview initialization failed: '' @
           (case error r of None \<Rightarrow> ''None'' | Some e \<Rightarrow> e))), rs)
      else if request_id r = n then
        (if error_set (error r) then await_window n rs
         else if result r = PBool True then (Returned PNone, rs)
         else await_window n rs)
      else await_window n rs)"

definition wait_for_window :: "controller \<Rightarrow> pyval completion \<times> controller" where
  "wait_for_window s =
     (let (n, s1) = new_request_id s;
          s2 = s1\<lparr>sent := sent s1 @ [PingRequest n]\<rparr>;
          (out, rest) = await_window n (inbox s2)
      in (out, s2\<lparr>inbox := rest\<rparr>))"

text \<open>
  \<open>start\<close>. The \<open>finally\<close> clause runs when the body returns or raises, not while it is
  blocked.
\<close>

definition start :: "controller \<Rightarrow> pyval completion \<times> controller" where
  "start s =
     (if (case process_handle s of None \<Rightarrow> False | Some p \<Rightarrow> running p) then
        (Raised (RuntimeError ''Webview process is already running.''), s)
      else
        let original_argv = sys_argv s;
            s1 = s\<lparr>sys_argv := take 1 (sys_argv s)\<rparr>;
            s2 = s1\<lparr>process_handle := Some \<lparr>running = True, spawn_argv = sys_argv s1\<rparr>\<rparr>;
            s3 = s2\<lparr>p_is_alive := True\<rparr>;
            (out, s4) = wait_for_window s3
        in (case out of
              Blocked \<Rightarrow> (Blocked, s4)
            | _ \<Rightarrow> (out, s4\<lparr>sys_argv := original_argv\<rparr>)))"

text \<open>
  The command methods. A method whose body ends without \<open>return\<close> returns \<open>None\<close>.
  \<open>resize\<close> is given its arguments as \<open>int(width)\<close> and \<open>int(height)\<close> make them.
\<close>

definition close :: "controller \<Rightarrow> pyval completion \<times> controller" where
  "close s =
     (let (n, s1) = new_request_id s;
          (out, s2) = send_command (CloseRequest n) s1
      in (case out of
            Returned v \<Rightarrow> (Returned PNone, s2\<lparr>p_is_alive := False\<rparr>)
          | _ \<Rightarrow> (out, s2)))"

definition resize :: "int \<Rightarrow> int \<Rightarrow> controller \<Rightarrow> pyval completion \<times> controller" where
  "resize width height s =
     (let (n, s1) = new_request_id s;
          (out, s2) = send_command (ResizeRequest n width height) s1
      in (case out of Returned v \<Rightarrow> (Returned PNone, s2) | _ \<Rightarrow> (out, s2)))"

definition set_title :: "string \<Rightarrow> controller \<Rightarrow> pyval completion \<times> controller" where
  "set_title title s =
     (let (n, s1) = new_request_id s;
          (out, s2) = send_command (SetTitleRequest n title) s1
      in (case out of Returned v \<Rightarrow> (Returned PNone, s2) | _ \<Rightarrow> (out, s2)))"

definition toggle_fullscreen :: "controller \<Rightarrow> pyval completion \<times> controller" where
  "toggle_fullscreen s =
     (let (n, s1) = new_request_id s;
          (out, s2) = send_command (ToggleFullscreenRequest n) s1
      in (case out of Returned v \<Rightarrow> (Returned PNone, s2) | _ \<Rightarrow> (out, s2)))"

definition set_maximized :: "bool \<Rightarrow> controller \<Rightarrow> pyval completion \<times> controller" where
  "set_maximized maximized s =
     (let (n, s1) = new_request_id s;
          (out, s2) = send_command (SetMaximizedRequest n maximized) s1
      in (case out of Returned v \<Rightarrow> (Returned PNone, s2) | _ \<Rightarrow> (out, s2)))"

definition pick_file ::
  "string list option \<Rightarrow> bool \<Rightarrow> controller \<Rightarrow> pyval completion \<times> controller" where
  "pick_file file_types multiple s =
     (let (n, s1) = new_request_id s;
          (out, s2) = send_command
             (PickFileRequest n
                (case file_types of None \<Rightarrow> [] | Some fts \<Rightarrow> if fts \<noteq> [] then fts else [])
                multiple) s1
      in (case out of
            Returned res \<Rightarrow>
              (if multiple then Returned res
               else if truthy res then first_or_none res
               else Returned PNone, s2)
          | _ \<Rightarrow> (out, s2)))"

definition save_file ::
  "contents \<Rightarrow> string \<Rightarrow> string option \<Rightarrow> controller \<Rightarrow> pyval completion \<times> controller" where
  "save_file file_contents file_name directory s =
     (let (n, s1) = new_request_id s;
          req = SaveFileRequest n file_contents file_name
                  (case directory of None \<Rightarrow> None | Some d \<Rightarrow> if d \<noteq> [] then Some d else None)
      in send_command req s1)"

definition evaluate_javascript :: "string \<Rightarrow> controller \<Rightarrow> pyval completion \<times> controller" where
  "evaluate_javascript js_code s =
     (let (n, s1) = new_request_id s;
          req = EvaluateJavascriptRequest n js_code
      in send_command req s1)"

text \<open>
  A call of one of the command methods by the application, and a sequence of such calls
  (and of \<open>start\<close>) on one instance. An exception is caught by the caller, who goes on;
  a call that blocks is the last one.
\<close>

datatype facade_call =
    CallStart
  | CallClose
  | CallResize int int
  | CallSetTitle string
  | CallToggleFullscreen
  | CallSetMaximized bool
  | CallPickFile "string list option" bool
  | CallSaveFile contents string "string option"
  | CallEvaluateJavascript string

fun call :: "facade_call \<Rightarrow> controller \<Rightarrow> pyval completion \<times> controller" where
  "call CallStart s = start s"
| "call CallClose s = close s"
| "call (CallResize w h) s = resize w h s"
| "call (CallSetTitle t) s = set_title t s"
| "call CallToggleFullscreen s = toggle_fullscreen s"
| "call (CallSetMaximized m) s = set_maximized m s"
| "call (CallPickFile fts m) s = pick_file fts m s"
| "call (CallSaveFile c name d) s = save_file c name d s"
| "call (CallEvaluateJavascript code) s = evaluate_javascript code s"

text \<open>
  The request a call constructs with the id it was assigned (\<open>start\<close> sends the Ping),
  and what the method makes of the \<open>result\<close> that \<open>_send_command\<close> returns: its own
  return value, or the exception of \<open>result[0]\<close>.
\<close>

fun command_of :: "facade_call \<Rightarrow> int \<Rightarrow> request" where
  "command_of CallStart n = PingRequest n"
| "command_of CallClose n = CloseRequest n"
| "command_of (CallResize w h) n = ResizeRequest n w h"
| "command_of (CallSetTitle t) n = SetTitleRequest n t"
| "command_of CallToggleFullscreen n = ToggleFullscreenRequest n"
| "command_of (CallSetMaximized m) n = SetMaximizedRequest n m"
| "command_of (CallPickFile fts m) n =
     PickFileRequest n (case fts of None \<Rightarrow> [] | Some f \<Rightarrow> if f \<noteq> [] then f else []) m"
| "command_of (CallSaveFile c name d) n =
     SaveFileRequest n c name (case d of None \<Rightarrow> None | Some x \<Rightarrow> if x \<noteq> [] then Some x else None)"
| "command_of (CallEvaluateJavascript code) n = EvaluateJavascriptRequest n code"

fun returned :: "facade_call \<Rightarrow> pyval \<Rightarrow> pyval completion" where
  "returned (CallPickFile fts m) v =
     (if m then Returned v else if truthy v then first_or_none v else Returned PNone)"
| "returned (CallSaveFile c name d) v = Returned v"
| "returned (CallEvaluateJavascript code) v = Returned v"
| "returned c v = Returned PNone"

fun is_command :: "facade_call \<Rightarrow> bool" where
  "is_command CallStart = False"
| "is_command c = True"

fun calls :: "facade_call list \<Rightarrow> controller \<Rightarrow> controller" where
  "calls [] s = s"
| "calls (c # cs) s =
     (case call c s of (Blocked, s') \<Rightarrow> s' | (out, s') \<Rightarrow> calls cs s')"

section \<open>The worker process\<close>

subsection \<open>The window toolkit and the filesystem\<close>

text \<open>
  A call into the toolkit returns a value or raises an \<open>Exception\<close>, of which the source
  only uses \<open>str(e)\<close>.
\<close>

datatype 'a outcome = Returns 'a | Raises string

text \<open>
  The two ways the source calls \<open>window.create_file_dialog\<close>: with
  \<open>dialog_type=OPEN_DIALOG, allow_multiple, file_types\<close> and with
  \<open>dialog_type=SAVE_DIALOG, save_filename, directory\<close>. The dialog answers \<open>None\<close>, one
  path as a string, or a sequence of paths.
\<close>

datatype dialog_call = OPEN_DIALOG bool "string list" | SAVE_DIALOG string string

datatype dialog_result = NoPath | OnePath string | Paths "string list"

text \<open>
  The toolkit is not part of the repository: it is a parameter of the model. \<open>'w\<close> is
  the state of the window, which every call may change, also when it raises.
\<close>

record 'w toolkit =
  webview_create_window :: "string \<Rightarrow> string \<Rightarrow> int \<Rightarrow> int \<Rightarrow> 'w outcome"
  webview_start :: "string option \<Rightarrow> bool \<Rightarrow> string option \<Rightarrow> 'w \<Rightarrow> unit outcome \<times> 'w"
  window_destroy :: "'w \<Rightarrow> unit outcome \<times> 'w"
  window_resize :: "int \<Rightarrow> int \<Rightarrow> 'w \<Rightarrow> unit outcome \<times> 'w"
  window_set_title :: "string \<Rightarrow> 'w \<Rightarrow> unit outcome \<times> 'w"
  window_toggle_fullscreen :: "'w \<Rightarrow> unit outcome \<times> 'w"
  window_maximize :: "'w \<Rightarrow> unit outcome \<times> 'w"
  window_restore :: "'w \<Rightarrow> unit outcome \<times> 'w"
  window_create_file_dialog :: "dialog_call \<Rightarrow> 'w \<Rightarrow> dialog_result outcome \<times> 'w"
  window_evaluate_js :: "string \<Rightarrow> 'w \<Rightarrow> pyval outcome \<times> 'w"

text \<open>
  The filesystem maps a path to the bytes of the file there. The operating system is a
  parameter of the model as the toolkit is: its line separator \<open>os.linesep\<close>, for each
  path whether \<open>open\<close> for writing raises (with the \<open>str(e)\<close> of the \<open>OSError\<close>), and
  for each path and data whether writing them raises, and then after how many bytes.
\<close>

type_synonym filesystem = "string \<rightharpoonup> byte list"

record platform =
  os_linesep :: "nat list"
  os_open_error :: "string \<Rightarrow> string option"
  os_write_error :: "string \<Rightarrow> byte list \<Rightarrow> (string \<times> nat) option"

subsection \<open>Writing text: \<open>open(destination, 'w', encoding='utf-8')\<close>\<close>

text \<open>
  A file opened in text mode with the default \<open>newline=None\<close> replaces every line feed
  written to it by \<open>os.linesep\<close>, then encodes with the strict UTF-8 codec, which refuses
  the surrogate code points.
\<close>

definition write_translate :: "nat list \<Rightarrow> nat list \<Rightarrow> nat list" where
  "write_translate linesep t = concat (map (\<lambda>c. if c = 10 then linesep else [c]) t)"

definition is_surrogate :: "nat \<Rightarrow> bool" where
  "is_surrogate c = (0xD800 \<le> c \<and> c \<le> 0xDFFF)"

definition utf8_char :: "nat \<Rightarrow> byte list" where
  "utf8_char c =
     (if c < 0x80 then [of_nat c]
      else if c < 0x800 then [of_nat (0xC0 + c div 64), of_nat (0x80 + c mod 64)]
      else if c < 0x10000 then
        [of_nat (0xE0 + c div 4096), of_nat (0x80 + c div 64 mod 64), of_nat (0x80 + c mod 64)]
      else
        [of_nat (0xF0 + c div 262144), of_nat (0x80 + c div 4096 mod 64),
         of_nat (0x80 + c div 64 mod 64), of_nat (0x80 + c mod 64)])"

definition utf8 :: "nat list \<Rightarrow> byte list" where
  "utf8 t = concat (map utf8_char t)"

text \<open>Decimal digits of a position and the four hexadecimal digits of a surrogate.\<close>

function dec :: "nat \<Rightarrow> string" where
  "dec n = (if n < 10 then [char_of (48 + n)] else dec (n div 10) @ [char_of (48 + n mod 10)])"
  by pat_completeness auto
termination
  by (relation "measure id") auto

definition hex_digit :: "nat \<Rightarrow> char" where
  "hex_digit d = (if d < 10 then char_of (48 + d) else char_of (87 + d))"

definition hex4 :: "nat \<Rightarrow> string" where
  "hex4 c = [hex_digit (c div 4096 mod 16), hex_digit (c div 256 mod 16),
             hex_digit (c div 16 mod 16), hex_digit (c mod 16)]"

text \<open>
  The message of the \<open>UnicodeEncodeError\<close> for the first run of surrogates, which starts
  at position \<open>i\<close> with the code point \<open>c\<close> and has \<open>k\<close> members.
\<close>

definition surrogates_message :: "nat \<Rightarrow> nat \<Rightarrow> nat \<Rightarrow> string" where
  "surrogates_message i c k =
     quoted ''utf-8'' @ '' codec can'' @ [CHR 0x27] @ ''t encode '' @
     (if k = 1 then
        ''character '' @ quoted ([CHR 0x5C] @ ''u'' @ hex4 c) @ '' in position '' @ dec i
      else ''characters in position '' @ dec i @ ''-'' @ dec (i + k - 1)) @
     '': surrogates not allowed''"

definition encode_utf8 :: "nat list \<Rightarrow> string + byte list" where
  "encode_utf8 u =
     (case dropWhile (\<lambda>c. \<not> is_surrogate c) u of
        [] \<Rightarrow> Inr (utf8 u)
      | c # cs \<Rightarrow>
          Inl (surrogates_message (length (takeWhile (\<lambda>c. \<not> is_surrogate c) u)) c
                 (length (takeWhile is_surrogate (c # cs)))))"

text \<open>
  \<open>with open(destination, mode) as f: f.write(x)\<close> for a writing mode: the \<open>str(e)\<close>
  of the exception if any, and the filesystem afterwards. When \<open>open\<close> raises nothing
  is changed; else the file is created or emptied. \<open>f.write\<close> then either refuses its
  argument (\<open>Inl\<close>, nothing more happens to the file) or hands bytes (\<open>Inr\<close>) to the
  operating system, which stores them all or fails after some of them.
\<close>

definition write_file ::
  "platform \<Rightarrow> string \<Rightarrow> string + byte list \<Rightarrow> filesystem \<Rightarrow> string option \<times> filesystem" where
  "write_file os destination payload fs =
     (case os_open_error os destination of
        Some e \<Rightarrow> (Some e, fs)
      | None \<Rightarrow>
          let fs1 = fs(destination \<mapsto> [])
          in case payload of
               Inl e \<Rightarrow> (Some e, fs1)
             | Inr bs \<Rightarrow>
                 (case os_write_error os destination bs of
                    Some (e, k) \<Rightarrow> (Some e, fs1(destination \<mapsto> take k bs))
                  | None \<Rightarrow> (None, fs1(destination \<mapsto> bs))))"

text \<open>The text mode \<open>open(destination, 'w', encoding='utf-8')\<close>.\<close>

definition write_text_file ::
  "platform \<Rightarrow> string \<Rightarrow> nat list \<Rightarrow> filesystem \<Rightarrow> string option \<times> filesystem" where
  "write_text_file os destination t fs =
     write_file os destination (encode_utf8 (write_translate (os_linesep os) t)) fs"

text \<open>The binary mode \<open>open(destination, 'wb')\<close>, whose \<open>f.write\<close> accepts bytes-like
  objects only.\<close>

definition write_binary_file ::
  "platform \<Rightarrow> string \<Rightarrow> contents \<Rightarrow> filesystem \<Rightarrow> string option \<times> filesystem" where
  "write_binary_file os destination x fs =
     write_file os destination
       (case x of
          BytesContents bs \<Rightarrow> Inr bs
        | StrContents t \<Rightarrow> Inl (''a bytes-like object is required, not '' @ quoted ''str'')
        | OtherContents ty \<Rightarrow> Inl (''a bytes-like object is required, not '' @ quoted ty)
        | UnpicklableContents e (Inl bs) \<Rightarrow> Inr bs
        | UnpicklableContents e (Inr ty) \<Rightarrow>
            Inl (''a bytes-like object is required, not '' @ quoted ty))
       fs"

subsection \<open>\<open>process\<close> of each request\<close>

text \<open>
  The worker's state is the window and the filesystem. \<open>process\<close> returns the
  \<open>Response\<close> (\<open>Inr\<close>) or raises (\<open>Inl\<close>, with \<open>str(e)\<close>).
\<close>

type_synonym 'w worker_state = "'w \<times> filesystem"

definition respond ::
  "int \<Rightarrow> pyval \<Rightarrow> 'w worker_state \<Rightarrow> (string + Response) \<times> 'w worker_state" where
  "respond n v st = (Inr \<lparr>request_id = n, result = v, error = None\<rparr>, st)"

text \<open>
  \<open>destinations\<close> of \<open>SaveFileRequest.process\<close>: nothing when \<open>not destinations\<close>
  (\<open>None\<close>, the empty string and the empty sequence are falsy), else the string itself
  or \<open>destinations[0]\<close>.
\<close>

fun chosen :: "dialog_result \<Rightarrow> string option" where
  "chosen NoPath = None"
| "chosen (OnePath p) = (if p \<noteq> [] then Some p else None)"
| "chosen (Paths []) = None"
| "chosen (Paths (p # ps)) = Some p"

text \<open>The filters of \<open>PickFileRequest.process\<close>: \<open>txt\<close> becomes \<open>txt (*.txt)\<close>.\<close>

definition dialog_filters :: "string list \<Rightarrow> string list" where
  "dialog_filters file_types =
     (if file_types \<noteq> [] then map (\<lambda>ext. ext @ '' (*.'' @ ext @ '')'') file_types else [])"

fun process ::
  "'w toolkit \<Rightarrow> platform \<Rightarrow> request \<Rightarrow> 'w worker_state \<Rightarrow>
   (string + Response) \<times> 'w worker_state" where
  "process tk os (CloseRequest n) (w, fs) =
     (case window_destroy tk w of
        (Raises e, w') \<Rightarrow> (Inl e, (w', fs))
      | (Returns u, w') \<Rightarrow> respond n (PBool True) (w', fs))"
| "process tk os (ResizeRequest n width height) (w, fs) =
     (case window_resize tk width height w of
        (Raises e, w') \<Rightarrow> (Inl e, (w', fs))
      | (Returns u, w') \<Rightarrow> respond n (PBool True) (w', fs))"
| "process tk os (SetTitleRequest n title) (w, fs) =
     (case window_set_title tk title w of
        (Raises e, w') \<Rightarrow> (Inl e, (w', fs))
      | (Returns u, w') \<Rightarrow> respond n (PBool True) (w', fs))"
| "process tk os (ToggleFullscreenRequest n) (w, fs) =
     (case window_toggle_fullscreen tk w of
        (Raises e, w') \<Rightarrow> (Inl e, (w', fs))
      | (Returns u, w') \<Rightarrow> respond n (PBool True) (w', fs))"
| "process tk os (SetMaximizedRequest n maximized) (w, fs) =
     (case (if maximized then window_maximize tk w else window_restore tk w) of
        (Raises e, w') \<Rightarrow> (Inl e, (w', fs))
      | (Returns u, w') \<Rightarrow> respond n (PBool True) (w', fs))"
| "process tk os (PickFileRequest n file_types multiple) (w, fs) =
     (case window_create_file_dialog tk
             (OPEN_DIALOG multiple (dialog_filters file_types)) w of
        (Raises e, w') \<Rightarrow> (Inl e, (w', fs))
      | (Returns paths, w') \<Rightarrow>
          respond n
            (case paths of
               OnePath p \<Rightarrow> PList [PStr p]
             | Paths ps \<Rightarrow> if ps \<noteq> [] then PList (map PStr ps) else PList []
             | NoPath \<Rightarrow> PList [])
            (w', fs))"
| "process tk os (SaveFileRequest n file_contents file_name directory) (w, fs) =
     (case window_create_file_dialog tk
             (SAVE_DIALOG file_name
                (case directory of None \<Rightarrow> [] | Some d \<Rightarrow> if d \<noteq> [] then d else [])) w of
        (Raises e, w') \<Rightarrow> (Inl e, (w', fs))
      | (Returns destinations, w') \<Rightarrow>
          (case chosen destinations of
             None \<Rightarrow> respond n (PBool False) (w', fs)
           | Some destination \<Rightarrow>
               let (failure, fs') =
                     (case file_contents of
                        StrContents t \<Rightarrow> write_text_file os destination t fs
                      | _ \<Rightarrow> write_binary_file os destination file_contents fs)
               in (case failure of
                     Some e \<Rightarrow> (Inl e, (w', fs'))
                   | None \<Rightarrow> respond n (PBool True) (w', fs'))))"
| "process tk os (EvaluateJavascriptRequest n js_code) (w, fs) =
     (case window_evaluate_js tk js_code w of
        (Raises e, w') \<Rightarrow> (Inl e, (w', fs))
      | (Returns v, w') \<Rightarrow> respond n v (w', fs))"
| "process tk os (PingRequest n) (w, fs) = respond n (PBool True) (w, fs)"

subsection \<open>The command loop and the worker's entry point\<close>

text \<open>
  The body of the loop for one request: the inner \<open>try\<close> turns an exception of
  \<open>process\<close> into a \<open>Response\<close> with \<open>error=str(e)\<close>.
\<close>

definition reply ::
  "'w toolkit \<Rightarrow> platform \<Rightarrow> request \<Rightarrow> 'w worker_state \<Rightarrow> Response \<times> 'w worker_state" where
  "reply tk os req st =
     (case process tk os req st of
        (Inr response, st') \<Rightarrow> (response, st')
      | (Inl e, st') \<Rightarrow> (\<lparr>request_id = cmd_id req, result = PNone, error = Some e\<rparr>, st'))"

text \<open>
  \<open>handle_commands\<close> over the messages that arrive on the worker's end of the channel
  (\<open>None\<close> is the value that makes the loop break): the responses it sends, in order, and
  the state it leaves. A poll that times out changes nothing, and when no message is left
  the loop sends nothing more. Sending a response is taken to succeed.
\<close>

fun handle_commands ::
  "'w toolkit \<Rightarrow> platform \<Rightarrow> request option list \<Rightarrow> 'w worker_state \<Rightarrow>
   Response list \<times> 'w worker_state" where
  "handle_commands tk os [] st = ([], st)"
| "handle_commands tk os (None # msgs) st = ([], st)"
| "handle_commands tk os (Some req # msgs) st =
     (let (response, st1) = reply tk os req st;
          (responses, st2) = handle_commands tk os msgs st1
      in (response # responses, st2))"

text \<open>
  A Python number as \<open>width\<close> and \<open>height\<close> can hold it: an \<open>int\<close>, or a \<open>float\<close>,
  which is a finite value \<open>m * 2 ** e\<close> with integers \<open>m\<close> and \<open>e\<close>, a NaN, or an
  infinity (negative when the flag is set). \<open>if x\<close> is false for zero only, and
  \<open>int(x)\<close> rounds a finite float towards zero and raises for the others.
\<close>

datatype number = IntNumber int | FloatNumber int int | NaN | Infinity bool

fun nonzero :: "number \<Rightarrow> bool" where
  "nonzero (IntNumber n) = (n \<noteq> 0)"
| "nonzero (FloatNumber m e) = (m \<noteq> 0)"
| "nonzero NaN = True"
| "nonzero (Infinity negative) = True"

fun py_int :: "number \<Rightarrow> string + int" where
  "py_int (IntNumber n) = Inr n"
| "py_int (FloatNumber m e) =
     Inr (if 0 \<le> e then m * 2 ^ nat e else sgn m * (\<bar>m\<bar> div 2 ^ nat (- e)))"
| "py_int NaN = Inl ''cannot convert float NaN to integer''"
| "py_int (Infinity negative) = Inl ''cannot convert float infinity to integer''"

text \<open>
  The fields of \<open>WebViewProcess\<close> that configure the window. \<open>icon_path\<close> is the field
  after \<open>__post_init__\<close>, as \<open>str\<close> prints it: the empty string stays as it is, any
  other value has become a \<open>pathlib.Path\<close>, which is never empty.
\<close>

record window_config =
  url :: string
  title :: string
  width :: "number option"
  height :: "number option"
  icon_path :: "string option"
  maximized :: bool
  fullscreen :: bool
  gui :: "string option"
  debug :: bool

text \<open>
  \<open>_run_webview\<close> in the worker: the messages it sends on \<open>conn\<close>, the worker's
  \<open>sys.argv\<close> at the end (it is \<open>argv[:1]\<close> in between, which nothing here reads),
  and the filesystem. The arguments of \<open>create_window\<close> are evaluated inside the
  \<open>try\<close>, the width before the height. The command thread and the event loop
  run side by side in the source; here the responses of the thread come first and a failure
  of the event loop itself comes after them.
\<close>

text \<open>\<open>int(self.width) if self.width else 800\<close>, and the same for the height with 600:
  the value, or the \<open>str(e)\<close> of the exception that \<open>int\<close> raises.\<close>

definition initial_width :: "window_config \<Rightarrow> string + int" where
  "initial_width cfg =
     (case width cfg of None \<Rightarrow> Inr 800 | Some x \<Rightarrow> if nonzero x then py_int x else Inr 800)"

definition initial_height :: "window_config \<Rightarrow> string + int" where
  "initial_height cfg =
     (case height cfg of None \<Rightarrow> Inr 600 | Some x \<Rightarrow> if nonzero x then py_int x else Inr 600)"

definition startup_failed :: "string \<Rightarrow> Response" where
  "startup_failed e = \<lparr>request_id = 0, result = PNone, error = Some e\<rparr>"

definition run_webview ::
  "'w toolkit \<Rightarrow> platform \<Rightarrow> window_config \<Rightarrow> string list \<Rightarrow> request option list \<Rightarrow>
   filesystem \<Rightarrow> Response list \<times> string list \<times> filesystem" where
  "run_webview tk os cfg argv msgs fs =
     (let original_argv = argv
      in case initial_width cfg of
           Inl e \<Rightarrow> ([startup_failed e], original_argv, fs)
         | Inr window_width \<Rightarrow>
      case initial_height cfg of
           Inl e \<Rightarrow> ([startup_failed e], original_argv, fs)
         | Inr window_height \<Rightarrow>
      case webview_create_window tk (title cfg) (url cfg) window_width window_height of
           Raises e \<Rightarrow> ([startup_failed e], original_argv, fs)
         | Returns w0 \<Rightarrow>
            (case (if maximized cfg then window_maximize tk w0 else (Returns (), w0)) of
               (Raises e, w1) \<Rightarrow> ([startup_failed e], original_argv, fs)
             | (Returns u, w1) \<Rightarrow>
                (case (if fullscreen cfg then window_toggle_fullscreen tk w1 else (Returns (), w1)) of
                   (Raises e, w2) \<Rightarrow> ([startup_failed e], original_argv, fs)
                 | (Returns u, w2) \<Rightarrow>
                    (let (responses, (w3, fs3)) = handle_commands tk os msgs (w2, fs)
                     in case webview_start tk (gui cfg) (debug cfg)
                               (case icon_path cfg of None \<Rightarrow> None
                                | Some i \<Rightarrow> if i \<noteq> [] then Some i else None) w3 of
                          (Raises e, w4) \<Rightarrow> (responses @ [startup_failed e], original_argv, fs3)
                        | (Returns u, w4) \<Rightarrow> (responses, original_argv, fs3)))))"

section \<open>A call answered by the worker\<close>

text \<open>
  One call of the application on a controller with nothing pending, answered by the
  worker's loop: what the call sends before it waits (the messages it adds to those sent
  when nothing arrives) is handed to \<open>handle_commands\<close>, and the responses of the loop
  are what arrives at the controller. The result is the call's outcome, the controller
  and the worker's state.
\<close>

definition served ::
  "'w toolkit \<Rightarrow> platform \<Rightarrow> facade_call \<Rightarrow> controller \<times> 'w worker_state \<Rightarrow>
   pyval completion \<times> controller \<times> 'w worker_state" where
  "served tk os c cs =
     (let s = fst cs;
          waiting = snd (call c (s\<lparr>inbox := []\<rparr>));
          commands = drop (length (sent s)) (sent waiting);
          (responses, st') = handle_commands tk os (map Some commands) (snd cs);
          (out, s') = call c (s\<lparr>inbox := responses\<rparr>)
      in (out, s', st'))"

section \<open>Concrete toolkits, states and the invariant of the request ids\<close>

text \<open>
  A toolkit without window state whose script evaluation and file dialog have the given
  outcomes and whose other calls succeed, and one whose \<open>create_window\<close> raises.
\<close>

definition scripted_toolkit :: "pyval outcome \<Rightarrow> dialog_result outcome \<Rightarrow> unit toolkit" where
  "scripted_toolkit js dialog =
     \<lparr>webview_create_window = (\<lambda>t u w h. Returns ()),
      webview_start = (\<lambda>g d i w. (Returns (), w)),
      window_destroy = (\<lambda>w. (Returns (), w)),
      window_resize = (\<lambda>x y w. (Returns (), w)),
      window_set_title = (\<lambda>t w. (Returns (), w)),
      window_toggle_fullscreen = (\<lambda>w. (Returns (), w)),
      window_maximize = (\<lambda>w. (Returns (), w)),
      window_restore = (\<lambda>w. (Returns (), w)),
      window_create_file_dialog = (\<lambda>c w. (dialog, w)),
      window_evaluate_js = (\<lambda>code w. (js, w))\<rparr>"


text \<open>An operating system on which every write succeeds, with the line separator of
  POSIX and with that of Windows.\<close>

definition posix :: platform where
  "posix = \<lparr>os_linesep = [10], os_open_error = (\<lambda>p. None), os_write_error = (\<lambda>p bs. None)\<rparr>"


text \<open>A toolkit whose \<open>window.destroy\<close> raises with the given description.\<close>

definition unclosable_toolkit :: "string \<Rightarrow> unit toolkit" where
  "unclosable_toolkit e =
     (scripted_toolkit (Returns PNone) (Returns NoPath))
       \<lparr>window_destroy := (\<lambda>w. (Raises e, w))\<rparr>"

definition example_config :: window_config where
  "example_config =
     \<lparr>url = ''http://test'', title = ''Test'', width = None, height = None, icon_path = None,
      maximized = False, fullscreen = False, gui = None, debug = False\<rparr>"

text \<open>The controller after a \<open>start\<close> that succeeded, with the given messages still to
  arrive.\<close>

definition started_controller :: "Response list \<Rightarrow> controller" where
  "started_controller msgs =
     \<lparr>sys_argv = [''app'', ''--verbose''],
      process_handle = Some \<lparr>running = True, spawn_argv = [''app'']\<rparr>,
      p_is_alive = True, p_request_id = 1, sent = [PingRequest 1], inbox = msgs\<rparr>"

definition ok_response :: "int \<Rightarrow> pyval \<Rightarrow> Response" where
  "ok_response n v = \<lparr>request_id = n, result = v, error = None\<rparr>"

text \<open>
  The invariant of the counter: it is never negative, the commands sent so far carry
  strictly increasing ids, and each of these ids is positive and at most the counter.
\<close>

definition ids_ok :: "controller \<Rightarrow> bool" where
  "ids_ok s = (0 \<le> p_request_id s \<and> sorted_wrt (<) (map cmd_id (sent s)) \<and>
               (\<forall>q\<in>set (sent s). 0 < cmd_id q \<and> cmd_id q \<le> p_request_id s))"

section \<open>Properties of the controller\<close>

lemma new_request_id_simp [simp]:
  "new_request_id s = (p_request_id s + 1, s\<lparr>p_request_id := p_request_id s + 1\<rparr>)"
  by (simp add: new_request_id_def)

lemma started_controller_is_start:
  "snd (start (new_controller [''app'', ''--verbose''] (ok_response 1 (PBool True) # msgs))) =
   started_controller msgs"
  by (simp add: start_def wait_for_window_def new_controller_def started_controller_def
      ok_response_def)

subsection \<open>Correlation of responses\<close>

lemma await_response_skip:
  "\<forall>p\<in>set pre. request_id p \<noteq> n \<Longrightarrow> await_response n (pre @ rs) = await_response n rs"
  by (induction pre) auto

lemma await_response_none:
  "\<forall>p\<in>set pre. request_id p \<noteq> n \<Longrightarrow> await_response n pre = (Blocked, [])"
  by (induction pre) auto

lemma send_command_alive:
  "p_is_alive s \<Longrightarrow> unpicklable req = None \<Longrightarrow>
   send_command req s =
     (fst (await_response (cmd_id req) (inbox s)),
      s\<lparr>sent := sent s @ [req], inbox := snd (await_response (cmd_id req) (inbox s))\<rparr>)"
  by (simp add: send_command_def split: prod.splits)


lemma send_command_unpicklable:
  "p_is_alive s \<Longrightarrow> unpicklable req = Some e \<Longrightarrow> send_command req s = (Raised e, s)"
  by (simp add: send_command_def)

text \<open>
  \<open>_send_command\<close> itself, for a request that can be pickled: it does not complete on
  responses with other ids, and completes on the first response with the request's id.
\<close>

lemma send_command_on_matching_id:
  assumes alive: "p_is_alive s"
    and sendable: "unpicklable req = None"
    and others: "\<forall>p\<in>set pre. request_id p \<noteq> cmd_id req"
  shows "send_command req (s\<lparr>inbox := pre\<rparr>) =
           (Blocked, s\<lparr>sent := sent s @ [req], inbox := []\<rparr>)
    \<and> (request_id r = cmd_id req \<longrightarrow>
         send_command req (s\<lparr>inbox := pre @ r # rest\<rparr>) =
           (case error r of
              Some e \<Rightarrow> if e \<noteq> [] then Raised (WebViewException e) else Returned (result r)
            | None \<Rightarrow> Returned (result r),
            s\<lparr>sent := sent s @ [req], inbox := rest\<rparr>))"
  using alive sendable
  by (auto simp: send_command_def await_response_skip[OF others] await_response_none[OF others]
      split: option.splits)

text \<open>
  Every command method is one pattern: take the next id, send the request built with it
  through \<open>_send_command\<close>, and on a result return what the method makes of it;
  \<open>close\<close> then also clears \<open>_is_alive\<close>.
\<close>

lemma call_command:
  assumes "is_command c"
  shows "call c s =
     (case send_command (command_of c (p_request_id s + 1))
             (s\<lparr>p_request_id := p_request_id s + 1\<rparr>) of
        (Returned v, s') \<Rightarrow> (returned c v, if c = CallClose then s'\<lparr>p_is_alive := False\<rparr> else s')
      | (out, s') \<Rightarrow> (out, s'))"
  using assms
  by (cases c)
     (auto simp: close_def resize_def set_title_def toggle_fullscreen_def set_maximized_def
        pick_file_def save_file_def evaluate_javascript_def
        split: prod.splits completion.splits)

text \<open>
  C1. For each command method called on a live controller, with the id \<open>n\<close> it assigns
  and a request that can be pickled: the request with id \<open>n\<close> is sent; as long as only
  responses with other ids arrive the call does not complete; such responses in front of
  a response \<open>r\<close> with id \<open>n\<close> are skipped, and \<open>r\<close> completes the call, which raises
  \<open>WebViewException\<close> with \<open>r\<close>'s error when that is a non-empty string and otherwise
  returns what the method makes of \<open>r\<close>'s result. Exactly the messages up to \<open>r\<close> are
  consumed.
\<close>

theorem command_call_completes_on_matching_id:
  assumes cmd: "is_command c"
    and alive: "p_is_alive s"
    and sendable: "unpicklable (command_of c (p_request_id s + 1)) = None"
    and others: "\<forall>p\<in>set pre. request_id p \<noteq> p_request_id s + 1"
  shows "fst (call c (s\<lparr>inbox := pre\<rparr>)) = Blocked
    \<and> sent (snd (call c (s\<lparr>inbox := pre\<rparr>))) = sent s @ [command_of c (p_request_id s + 1)]
    \<and> (request_id r = p_request_id s + 1 \<longrightarrow>
         fst (call c (s\<lparr>inbox := pre @ r # rest\<rparr>)) =
           (case error r of
              Some e \<Rightarrow> if e \<noteq> [] then Raised (WebViewException e) else returned c (result r)
            | None \<Rightarrow> returned c (result r))
       \<and> inbox (snd (call c (s\<lparr>inbox := pre @ r # rest\<rparr>))) = rest
       \<and> sent (snd (call c (s\<lparr>inbox := pre @ r # rest\<rparr>))) =
           sent s @ [command_of c (p_request_id s + 1)])"
proof -
  let ?n = "p_request_id s + 1"
  let ?req = "command_of c ?n"
  define s1 where "s1 = s\<lparr>p_request_id := ?n\<rparr>"
  have id: "cmd_id ?req = ?n" by (cases c) simp_all
  have al: "p_is_alive s1" using alive by (simp add: s1_def)
  from others id have oth: "\<forall>p\<in>set pre. request_id p \<noteq> cmd_id ?req" by simp
  have unfold: "call c (s\<lparr>inbox := x\<rparr>) =
      (case send_command ?req (s1\<lparr>inbox := x\<rparr>) of
         (Returned v, s') \<Rightarrow> (returned c v, if c = CallClose then s'\<lparr>p_is_alive := False\<rparr> else s')
       | (out, s') \<Rightarrow> (out, s'))" for x
  proof -
    have "(s\<lparr>inbox := x\<rparr>)\<lparr>p_request_id := ?n\<rparr> = s1\<lparr>inbox := x\<rparr>"
      by (simp add: s1_def)
    then show ?thesis by (simp add: call_command[OF cmd])
  qed
  note sc = send_command_on_matching_id[OF al sendable oth, of r rest]
  have s1_sent: "sent s1 = sent s" by (simp add: s1_def)
  from sc have blocked: "call c (s\<lparr>inbox := pre\<rparr>) =
      (Blocked, s1\<lparr>sent := sent s1 @ [?req], inbox := []\<rparr>)"
    by (simp add: unfold)
  have matched: "call c (s\<lparr>inbox := pre @ r # rest\<rparr>) =
      (case error r of
         Some e \<Rightarrow> if e \<noteq> [] then (Raised (WebViewException e),
                        s1\<lparr>sent := sent s1 @ [?req], inbox := rest\<rparr>)
                  else (returned c (result r),
                        if c = CallClose
                        then s1\<lparr>sent := sent s1 @ [?req], inbox := rest, p_is_alive := False\<rparr>
                        else s1\<lparr>sent := sent s1 @ [?req], inbox := rest\<rparr>)
       | None \<Rightarrow> (returned c (result r),
                  if c = CallClose
                  then s1\<lparr>sent := sent s1 @ [?req], inbox := rest, p_is_alive := False\<rparr>
                  else s1\<lparr>sent := sent s1 @ [?req], inbox := rest\<rparr>))"
    if "request_id r = ?n"
    using sc that id by (simp add: unfold split: option.splits)
  show ?thesis
    using blocked matched s1_sent by (auto split: option.splits)
qed

theorem command_call_completes_on_matching_id_witness:
  "is_command (CallEvaluateJavascript ''1+1'')
   \<and> p_is_alive (started_controller [])
   \<and> unpicklable (command_of (CallEvaluateJavascript ''1+1'')
        (p_request_id (started_controller []) + 1)) = None
   \<and> request_id (ok_response 1 (PBool True)) \<noteq> p_request_id (started_controller []) + 1
   \<and> request_id (ok_response 7 (PStr ''stale'')) \<noteq> p_request_id (started_controller []) + 1
   \<and> request_id (ok_response 2 (PInt 2)) = p_request_id (started_controller []) + 1
   \<and> fst (call (CallEvaluateJavascript ''1+1'')
         ((started_controller [])\<lparr>inbox :=
            [ok_response 1 (PBool True), ok_response 7 (PStr ''stale'')]\<rparr>)) = Blocked
   \<and> fst (call (CallEvaluateJavascript ''1+1'')
         ((started_controller [])\<lparr>inbox :=
            [ok_response 1 (PBool True), ok_response 7 (PStr ''stale'')] @
            ok_response 2 (PInt 2) # [ok_response 2 (PInt 3)]\<rparr>)) = Returned (PInt 2)
   \<and> inbox (snd (call (CallEvaluateJavascript ''1+1'')
         ((started_controller [])\<lparr>inbox :=
            [ok_response 1 (PBool True), ok_response 7 (PStr ''stale'')] @
            ok_response 2 (PInt 2) # [ok_response 2 (PInt 3)]\<rparr>))) = [ok_response 2 (PInt 3)]
   \<and> sent (snd (call (CallEvaluateJavascript ''1+1'')
         ((started_controller [])\<lparr>inbox :=
            [ok_response 1 (PBool True), ok_response 7 (PStr ''stale'')] @
            ok_response 2 (PInt 2) # [ok_response 2 (PInt 3)]\<rparr>))) =
       [PingRequest 1, EvaluateJavascriptRequest 2 ''1+1'']"
  using command_call_completes_on_matching_id
    [of "CallEvaluateJavascript ''1+1''" "started_controller []"
        "[ok_response 1 (PBool True), ok_response 7 (PStr ''stale'')]"
        "ok_response 2 (PInt 2)" "[ok_response 2 (PInt 3)]"]
  by (simp add: started_controller_def ok_response_def)

text \<open>A request that cannot be pickled is not sent: the call raises the exception of the
  pickling, and the channel is as before.\<close>

lemma unpicklable_not_sent:
  assumes "p_is_alive s"
  shows "call (CallSaveFile (UnpicklableContents e x) name d) s =
           (Raised e, s\<lparr>p_request_id := p_request_id s + 1\<rparr>)"
  using assms by (simp add: save_file_def send_command_def)

subsection \<open>The guard\<close>



text \<open>The two ways of not being alive: never started, and closed.\<close>

lemma never_started_not_alive: "\<not> p_is_alive (new_controller argv msgs)"
  by (simp add: new_controller_def)

lemma closed_not_alive: "close s = (Returned v, s') \<Longrightarrow> \<not> p_is_alive s'"
  by (auto simp: close_def split: prod.splits completion.splits)

subsection \<open>The request ids\<close>

lemma send_command_state:
  "send_command req s = (out, s') \<Longrightarrow>
     p_request_id s' = p_request_id s \<and> (sent s' = sent s \<or> sent s' = sent s @ [req])"
  by (auto simp: send_command_def split: if_splits prod.splits option.splits)

lemma ids_ok_extend:
  assumes "ids_ok s" and "p_request_id s' = p_request_id s + 1"
    and "sent s' = sent s \<or> sent s' = sent s @ [req]" and "cmd_id req = p_request_id s + 1"
  shows "ids_ok s'"
  using assms unfolding ids_ok_def
  by (auto simp: sorted_wrt_append) fastforce+

lemma send_fresh:
  assumes "ids_ok s" and "cmd_id req = p_request_id s + 1"
  shows "ids_ok (snd (send_command req (s\<lparr>p_request_id := p_request_id s + 1\<rparr>)))"
proof -
  obtain out s' where e: "send_command req (s\<lparr>p_request_id := p_request_id s + 1\<rparr>) = (out, s')"
    by (cases "send_command req (s\<lparr>p_request_id := p_request_id s + 1\<rparr>)")
  from send_command_state[OF e] assms show ?thesis
    using ids_ok_extend[of s s' req] e by auto
qed

lemma ids_ok_alive [simp]: "ids_ok (s\<lparr>p_is_alive := b\<rparr>) = ids_ok s"
  and ids_ok_argv [simp]: "ids_ok (s\<lparr>sys_argv := a\<rparr>) = ids_ok s"
  and ids_ok_process [simp]: "ids_ok (s\<lparr>process_handle := p\<rparr>) = ids_ok s"
  and ids_ok_inbox [simp]: "ids_ok (s\<lparr>inbox := i\<rparr>) = ids_ok s"
  by (simp_all add: ids_ok_def)

lemma wait_for_window_ids:
  assumes "ids_ok s"
  shows "ids_ok (snd (wait_for_window s))"
  using assms
    ids_ok_extend[of s "s\<lparr>p_request_id := p_request_id s + 1,
                          sent := sent s @ [PingRequest (p_request_id s + 1)]\<rparr>"
                     "PingRequest (p_request_id s + 1)"]
  by (simp add: wait_for_window_def split: prod.splits)

lemma start_ids: "ids_ok s \<Longrightarrow> ids_ok (snd (start s))"
  using wait_for_window_ids[of "s\<lparr>sys_argv := take 1 (sys_argv s),
      process_handle := Some \<lparr>running = True, spawn_argv = take 1 (sys_argv s)\<rparr>,
      p_is_alive := True\<rparr>"]
  by (auto simp: start_def Let_def split: prod.splits completion.splits)

lemma call_ids:
  assumes ok: "ids_ok s"
  shows "ids_ok (snd (call c s))"
proof (cases c)
  case CallStart
  with ok show ?thesis by (simp add: start_ids)
next
  case CallClose
  with send_fresh[OF ok, of "CloseRequest (p_request_id s + 1)"]
  show ?thesis by (auto simp: close_def split: prod.splits completion.splits)
next
  case (CallResize w h)
  with send_fresh[OF ok, of "ResizeRequest (p_request_id s + 1) w h"]
  show ?thesis by (auto simp: resize_def split: prod.splits completion.splits)
next
  case (CallSetTitle t)
  with send_fresh[OF ok, of "SetTitleRequest (p_request_id s + 1) t"]
  show ?thesis by (auto simp: set_title_def split: prod.splits completion.splits)
next
  case CallToggleFullscreen
  with send_fresh[OF ok, of "ToggleFullscreenRequest (p_request_id s + 1)"]
  show ?thesis by (auto simp: toggle_fullscreen_def split: prod.splits completion.splits)
next
  case (CallSetMaximized m)
  with send_fresh[OF ok, of "SetMaximizedRequest (p_request_id s + 1) m"]
  show ?thesis by (auto simp: set_maximized_def split: prod.splits completion.splits)
next
  case (CallPickFile fts m)
  with send_fresh[OF ok, of "PickFileRequest (p_request_id s + 1)
      (case fts of None \<Rightarrow> [] | Some f \<Rightarrow> if f \<noteq> [] then f else []) m"]
  show ?thesis by (auto simp: pick_file_def split: prod.splits completion.splits)
next
  case (CallSaveFile x name d)
  with send_fresh[OF ok, of "SaveFileRequest (p_request_id s + 1) x name
      (case d of None \<Rightarrow> None | Some d \<Rightarrow> if d \<noteq> [] then Some d else None)"]
  show ?thesis by (simp add: save_file_def)
next
  case (CallEvaluateJavascript code)
  with send_fresh[OF ok, of "EvaluateJavascriptRequest (p_request_id s + 1) code"]
  show ?thesis by (simp add: evaluate_javascript_def)
qed

lemma calls_ids: "ids_ok s \<Longrightarrow> ids_ok (calls cs s)"
proof (induction cs arbitrary: s)
  case Nil
  then show ?case by simp
next
  case (Cons c cs)
  from call_ids[OF Cons.prems, of c] Cons.IH[of "snd (call c s)"]
  show ?case by (auto split: prod.splits completion.splits)
qed

text \<open>
  C3. On a new instance the first id assigned is 1. After any sequence of calls of
  \<open>start\<close> and of the command methods on it, the ids of the commands sent so far are
  strictly increasing, each is positive, and each is smaller than the id the next
  assignment gives: no id is zero and none is used twice.
\<close>

theorem request_ids_strictly_increasing:
  "fst (new_request_id (new_controller argv msgs)) = 1 \<and>
   sorted_wrt (<) (map cmd_id (sent (calls cs (new_controller argv msgs)))) \<and>
   (\<forall>q\<in>set (sent (calls cs (new_controller argv msgs))).
       0 < cmd_id q \<and> cmd_id q < fst (new_request_id (calls cs (new_controller argv msgs))))"
proof -
  have "ids_ok (new_controller argv msgs)"
    by (simp add: ids_ok_def new_controller_def)
  from calls_ids[OF this, of cs] show ?thesis
    by (auto simp: ids_ok_def new_controller_def)
qed

theorem request_ids_strictly_increasing_witness:
  "map cmd_id (sent (calls [CallSetTitle ''Early'', CallStart, CallSetTitle ''New'', CallClose]
     (new_controller [''app'']
        [ok_response 2 (PBool True), ok_response 3 (PBool True), ok_response 4 (PBool True)])))
     = [2, 3, 4]
   \<and> fst (new_request_id (new_controller [''app'']
        [ok_response 2 (PBool True), ok_response 3 (PBool True), ok_response 4 (PBool True)])) = 1
   \<and> sorted_wrt (<) (map cmd_id (sent
       (calls [CallSetTitle ''Early'', CallStart, CallSetTitle ''New'', CallClose]
         (new_controller [''app'']
           [ok_response 2 (PBool True), ok_response 3 (PBool True), ok_response 4 (PBool True)]))))"
  using request_ids_strictly_increasing
    [of "[''app'']"
        "[ok_response 2 (PBool True), ok_response 3 (PBool True), ok_response 4 (PBool True)]"
        "[CallSetTitle ''Early'', CallStart, CallSetTitle ''New'', CallClose]"]
  by (simp add: new_controller_def ok_response_def start_def wait_for_window_def close_def
      set_title_def send_command_def)

subsection \<open>\<open>pick_file\<close>\<close>

text \<open>
  C7. When the response to \<open>pick_file\<close>'s command carries the list \<open>xs\<close> and no error,
  \<open>pick_file(multiple=False)\<close> returns the first element of \<open>xs\<close>, or \<open>None\<close> when
  \<open>xs\<close> is empty, and \<open>pick_file(multiple=True)\<close> returns \<open>xs\<close> itself.
\<close>

theorem pick_file_unwraps:
  assumes "p_is_alive s"
    and "\<forall>p\<in>set pre. request_id p \<noteq> p_request_id s + 1"
    and "inbox s = pre @ r # rest" and "request_id r = p_request_id s + 1"
    and "\<not> error_set (error r)" and "result r = PList xs"
  shows "fst (pick_file fts False s) = Returned (case xs of [] \<Rightarrow> PNone | x # _ \<Rightarrow> x)
       \<and> fst (pick_file fts True s) = Returned (PList xs)"
  using assms
  by (cases "error r"; cases xs)
     (simp_all add: pick_file_def send_command_alive await_response_skip)

theorem pick_file_unwraps_witness:
  "p_is_alive (started_controller [ok_response 2 (PList [PStr ''a.txt''])])
   \<and> inbox (started_controller [ok_response 2 (PList [PStr ''a.txt''])]) =
       [] @ ok_response 2 (PList [PStr ''a.txt'']) # []
   \<and> request_id (ok_response 2 (PList [PStr ''a.txt''])) =
       p_request_id (started_controller [ok_response 2 (PList [PStr ''a.txt''])]) + 1
   \<and> \<not> error_set (error (ok_response 2 (PList [PStr ''a.txt''])))
   \<and> result (ok_response 2 (PList [PStr ''a.txt''])) = PList [PStr ''a.txt'']
   \<and> fst (pick_file (Some [''txt'']) False
        (started_controller [ok_response 2 (PList [PStr ''a.txt''])])) = Returned (PStr ''a.txt'')
   \<and> fst (pick_file (Some [''txt'']) True
        (started_controller [ok_response 2 (PList [PStr ''a.txt''])])) =
       Returned (PList [PStr ''a.txt''])"
  using pick_file_unwraps
    [of "started_controller [ok_response 2 (PList [PStr ''a.txt''])]" "[]"
        "ok_response 2 (PList [PStr ''a.txt''])" "[]" "[PStr ''a.txt'']" "Some [''txt'']"]
  by (simp add: started_controller_def ok_response_def)

lemma pick_file_empty_example:
  "fst (pick_file None False (started_controller [ok_response 2 (PList [])])) = Returned PNone"
  by (simp add: pick_file_def send_command_def started_controller_def ok_response_def)

subsection \<open>\<open>start\<close>\<close>


lemma wait_for_window_frame:
  "sys_argv (snd (wait_for_window s)) = sys_argv s
   \<and> process_handle (snd (wait_for_window s)) = process_handle s
   \<and> p_is_alive (snd (wait_for_window s)) = p_is_alive s"
  by (simp add: wait_for_window_def split: prod.splits)

text \<open>
  C8. When \<open>start\<close> returns or raises, \<open>sys.argv\<close> of the controlling process is what it
  was before the call. When no worker was running, the worker is started while
  \<open>sys.argv\<close> is \<open>sys.argv[:1]\<close>, the program name without any argument.
\<close>

theorem start_restores_argv:
  assumes "start s = (out, s')"
  shows "(out \<noteq> Blocked \<longrightarrow> sys_argv s' = sys_argv s)
       \<and> ((\<forall>p. process_handle s = Some p \<longrightarrow> \<not> running p) \<longrightarrow>
            process_handle s' = Some \<lparr>running = True, spawn_argv = take 1 (sys_argv s)\<rparr>)"
proof (cases "case process_handle s of None \<Rightarrow> False | Some p \<Rightarrow> running p")
  case True
  with assms show ?thesis by (auto simp: start_def split: option.splits)
next
  case False
  define s3 where "s3 = s\<lparr>sys_argv := take 1 (sys_argv s),
               process_handle := Some \<lparr>running = True, spawn_argv = take 1 (sys_argv s)\<rparr>,
               p_is_alive := True\<rparr>"
  obtain o4 s4 where w: "wait_for_window s3 = (o4, s4)"
    by (cases "wait_for_window s3")
  from wait_for_window_frame[of s3] w
  have f: "sys_argv s4 = take 1 (sys_argv s)"
    "process_handle s4 = Some \<lparr>running = True, spawn_argv = take 1 (sys_argv s)\<rparr>"
    by (simp_all add: s3_def)
  from False assms w have "(out, s') =
      (case o4 of Blocked \<Rightarrow> (Blocked, s4) | _ \<Rightarrow> (o4, s4\<lparr>sys_argv := sys_argv s\<rparr>))"
    by (simp add: start_def Let_def s3_def)
  with f show ?thesis by (cases o4) auto
qed

theorem start_restores_argv_witness:
  "start (new_controller [''app'', ''--verbose''] [ok_response 1 (PBool True)]) =
     (Returned PNone, started_controller [])
   \<and> Returned PNone \<noteq> (Blocked :: pyval completion)
   \<and> process_handle (new_controller [''app'', ''--verbose''] [ok_response 1 (PBool True)]) = None
   \<and> sys_argv (started_controller []) =
       sys_argv (new_controller [''app'', ''--verbose''] [ok_response 1 (PBool True)])
   \<and> process_handle (started_controller []) = Some \<lparr>running = True, spawn_argv = [''app'']\<rparr>"
  using start_restores_argv
    [of "new_controller [''app'', ''--verbose''] [ok_response 1 (PBool True)]"
        "Returned PNone" "started_controller []"]
  by (simp add: start_def wait_for_window_def new_controller_def started_controller_def
      ok_response_def)

lemma start_blocked_leaves_argv_reset:
  "start (new_controller [''app'', ''--verbose''] []) =
     (Blocked, (started_controller [])\<lparr>sys_argv := [''app'']\<rparr>)"
  by (simp add: start_def wait_for_window_def new_controller_def started_controller_def)




text \<open>A width between 0 and 1 is not zero, so it is given to \<open>create_window\<close> as
  \<open>int\<close> rounds it, which is 0; the default is taken for \<open>None\<close> and for zero only.\<close>

lemma initial_width_examples:
  "initial_width (example_config\<lparr>width := Some (FloatNumber 1 (- 1))\<rparr>) = Inr 0"
  "initial_width (example_config\<lparr>width := Some (FloatNumber 0 0)\<rparr>) = Inr 800"
  "initial_width (example_config\<lparr>width := Some (FloatNumber (- 5) (- 1))\<rparr>) = Inr (- 2)"
  "initial_width (example_config\<lparr>width := Some (IntNumber 1024)\<rparr>) = Inr 1024"
  by (simp_all add: initial_width_def example_config_def)

text \<open>A failure of the first \<open>maximize\<close> is reported in the same way.\<close>

lemma maximize_failure_reported:
  assumes "initial_width cfg = Inr wd" and "initial_height cfg = Inr ht"
    and "webview_create_window tk (title cfg) (url cfg) wd ht = Returns w0"
    and "maximized cfg" and "window_maximize tk w0 = (Raises e, w1)"
  shows "run_webview tk os cfg argv msgs fs = ([startup_failed e], argv, fs)"
  using assms by (simp add: run_webview_def)

subsection \<open>\<open>close\<close>\<close>

lemma await_response_no_runtime_error:
  "fst (await_response n rs) \<noteq> Raised (RuntimeError m)"
  by (induction rs) (auto split: option.splits)

lemma first_or_none_no_runtime_error: "first_or_none v \<noteq> Raised (RuntimeError m)"
  by (cases v rule: first_or_none.cases) auto

lemma returned_no_runtime_error: "returned c v \<noteq> Raised (RuntimeError m)"
  by (cases c) (simp_all add: first_or_none_no_runtime_error)

lemma call_alive:
  assumes cmd: "is_command c" and alive: "p_is_alive s"
    and sendable: "unpicklable (command_of c (p_request_id s + 1)) = None"
  shows "fst (call c s) \<noteq> Raised (RuntimeError m)
       \<and> length (sent (snd (call c s))) = Suc (length (sent s))"
proof -
  have al: "p_is_alive (s\<lparr>p_request_id := p_request_id s + 1\<rparr>)" using alive by simp
  have nr: "fst (await_response n (inbox s)) \<noteq> Raised (RuntimeError m)" for n
    by (rule await_response_no_runtime_error)
  show ?thesis
    using nr returned_no_runtime_error[of c _ m]
    by (auto simp: call_command[OF cmd] send_command_alive[OF al sendable]
        split: completion.splits)
qed

text \<open>
  When the response to the Close command carries a non-empty error string, \<open>close\<close>
  raises \<open>WebViewException\<close> with it and the controller is still alive; a command
  method called next is not stopped by the guard and sends its command.
\<close>

lemma failed_close_stays_alive:
  assumes alive: "p_is_alive s"
    and others: "\<forall>p\<in>set pre. request_id p \<noteq> p_request_id s + 1"
    and match: "request_id r = p_request_id s + 1"
    and err: "error r = Some e" "e \<noteq> []"
    and arrive: "inbox s = pre @ r # rest"
  shows "fst (close s) = Raised (WebViewException e)
       \<and> p_is_alive (snd (close s))
       \<and> (is_command c \<and> unpicklable (command_of c (p_request_id s + 2)) = None \<longrightarrow>
            fst (call c (snd (close s))) \<noteq> Raised (RuntimeError ''Webview process is not running.'')
          \<and> length (sent (snd (call c (snd (close s))))) = Suc (length (sent (snd (close s)))))"
proof -
  have cl: "close s = (Raised (WebViewException e),
      s\<lparr>p_request_id := p_request_id s + 1, sent := sent s @ [CloseRequest (p_request_id s + 1)],
        inbox := rest\<rparr>)"
    using alive match err arrive
    by (simp add: close_def send_command_alive await_response_skip[OF others])
  then have al: "p_is_alive (snd (close s))" using alive by simp
  have n: "p_request_id (snd (close s)) + 1 = p_request_id s + 2" by (simp add: cl)
  have next_call: "fst (call c (snd (close s))) \<noteq>
        Raised (RuntimeError ''Webview process is not running.'')
    \<and> length (sent (snd (call c (snd (close s))))) = Suc (length (sent (snd (close s))))"
    if "is_command c" and "unpicklable (command_of c (p_request_id s + 2)) = None"
  proof (rule call_alive[OF that(1) al])
    from that(2) show "unpicklable (command_of c (p_request_id (snd (close s)) + 1)) = None"
      by (simp only: n)
  qed
  from cl al have "fst (close s) = Raised (WebViewException e)" by simp
  with al next_call show ?thesis by blast
qed

text \<open>
  C9, at a toolkit whose \<open>window.destroy\<close> raises an exception with the empty description:
  the worker answers the Close command with \<open>error=''\<close> and no result, \<open>close\<close> returns
  instead of raising, because \<open>if response.error\<close> is false for the empty string, and
  clears \<open>_is_alive\<close>; the command method called next is stopped by the guard.
\<close>

theorem empty_close_failure_clears_alive:
  "handle_commands (unclosable_toolkit []) posix [Some (CloseRequest 2)] ((), Map.empty) =
     ([\<lparr>request_id = 2, result = PNone, error = Some []\<rparr>], ((), Map.empty))
   \<and> fst (served (unclosable_toolkit []) posix CallClose (started_controller [], ((), Map.empty)))
     = Returned PNone
   \<and> \<not> p_is_alive (fst (snd
        (served (unclosable_toolkit []) posix CallClose (started_controller [], ((), Map.empty)))))
   \<and> fst (call (CallSetTitle ''New'') (fst (snd
        (served (unclosable_toolkit []) posix CallClose (started_controller [], ((), Map.empty))))))
     = Raised (RuntimeError ''Webview process is not running.'')"
  by (simp add: served_def close_def set_title_def send_command_def started_controller_def
      reply_def unclosable_toolkit_def scripted_toolkit_def)

lemma failed_close_example:
  "fst (served (unclosable_toolkit ''window is gone'') posix CallClose
          (started_controller [], ((), Map.empty)))
     = Raised (WebViewException ''window is gone'')
   \<and> p_is_alive (fst (snd (served (unclosable_toolkit ''window is gone'') posix CallClose
          (started_controller [], ((), Map.empty)))))"
  by (simp add: served_def close_def send_command_def started_controller_def
      reply_def unclosable_toolkit_def scripted_toolkit_def)

section \<open>Properties of the worker\<close>

subsection \<open>\<open>PickFileRequest.process\<close>\<close>

text \<open>
  C10. Every \<open>Response\<close> that \<open>PickFileRequest.process\<close> returns carries the request's
  id, no error, and a list of strings: the one path in a one-element list when the dialog
  gave a string, the paths when it gave a sequence, the empty list when it gave \<open>None\<close> or
  an empty sequence. Taking the first element of that result as \<open>pick_file\<close> does gives
  the first path, or \<open>None\<close> for the empty list, and never fails. Whenever the dialog
  returns, \<open>process\<close> returns such a \<open>Response\<close>.
\<close>

theorem pick_file_request_yields_list:
  "(process tk os (PickFileRequest n fts m) (w, fs) = (Inr resp, st') \<longrightarrow>
      (\<exists>d w'. window_create_file_dialog tk (OPEN_DIALOG m (dialog_filters fts)) w
                   = (Returns d, w')
          \<and> st' = (w', fs) \<and> request_id resp = n \<and> error resp = None
          \<and> result resp =
              PList (map PStr (case d of NoPath \<Rightarrow> [] | OnePath p \<Rightarrow> [p] | Paths ps \<Rightarrow> ps))
          \<and> first_or_none (result resp) =
              Returned (case (case d of NoPath \<Rightarrow> [] | OnePath p \<Rightarrow> [p] | Paths ps \<Rightarrow> ps) of
                          [] \<Rightarrow> PNone | p # _ \<Rightarrow> PStr p)))
   \<and> (window_create_file_dialog tk (OPEN_DIALOG m (dialog_filters fts)) w = (Returns d0, w0)
        \<longrightarrow> process tk os (PickFileRequest n fts m) (w, fs) =
              (Inr \<lparr>request_id = n,
                    result = PList (map PStr
                      (case d0 of NoPath \<Rightarrow> [] | OnePath p \<Rightarrow> [p] | Paths ps \<Rightarrow> ps)),
                    error = None\<rparr>, (w0, fs)))"
proof (intro conjI impI)
  assume a: "process tk os (PickFileRequest n fts m) (w, fs) = (Inr resp, st')"
  show "\<exists>d w'. window_create_file_dialog tk (OPEN_DIALOG m (dialog_filters fts)) w
                   = (Returns d, w')
          \<and> st' = (w', fs) \<and> request_id resp = n \<and> error resp = None
          \<and> result resp =
              PList (map PStr (case d of NoPath \<Rightarrow> [] | OnePath p \<Rightarrow> [p] | Paths ps \<Rightarrow> ps))
          \<and> first_or_none (result resp) =
              Returned (case (case d of NoPath \<Rightarrow> [] | OnePath p \<Rightarrow> [p] | Paths ps \<Rightarrow> ps) of
                          [] \<Rightarrow> PNone | p # _ \<Rightarrow> PStr p)"
  proof (cases "window_create_file_dialog tk (OPEN_DIALOG m (dialog_filters fts)) w")
    case (Pair o1 w')
    show ?thesis
    proof (cases o1)
      case (Raises e)
      with Pair a show ?thesis by simp
    next
      case (Returns d)
      with Pair a show ?thesis
        by (cases d) (auto simp: respond_def split: list.splits)
    qed
  qed
next
  assume "window_create_file_dialog tk (OPEN_DIALOG m (dialog_filters fts)) w = (Returns d0, w0)"
  then show "process tk os (PickFileRequest n fts m) (w, fs) =
              (Inr \<lparr>request_id = n,
                    result = PList (map PStr
                      (case d0 of NoPath \<Rightarrow> [] | OnePath p \<Rightarrow> [p] | Paths ps \<Rightarrow> ps)),
                    error = None\<rparr>, (w0, fs))"
    by (cases d0) (simp_all add: respond_def)
qed

theorem pick_file_request_yields_list_witness:
  "window_create_file_dialog (scripted_toolkit (Returns PNone) (Returns (OnePath ''file.txt'')))
      (OPEN_DIALOG False (dialog_filters [''txt''])) () = (Returns (OnePath ''file.txt''), ())
   \<and> process (scripted_toolkit (Returns PNone) (Returns (OnePath ''file.txt''))) posix
      (PickFileRequest 2 [''txt''] False) ((), Map.empty) =
     (Inr (ok_response 2 (PList [PStr ''file.txt''])), ((), Map.empty))
   \<and> result (ok_response 2 (PList [PStr ''file.txt''])) = PList [PStr ''file.txt'']
   \<and> first_or_none (result (ok_response 2 (PList [PStr ''file.txt'']))) =
       Returned (PStr ''file.txt'')"
  using pick_file_request_yields_list
    [where tk = "scripted_toolkit (Returns PNone) (Returns (OnePath ''file.txt''))"
       and os = posix and n = 2 and fts = "[''txt'']" and m = False and w = "()"
       and fs = Map.empty and resp = "ok_response 2 (PList [PStr ''file.txt''])"
       and st' = "((), Map.empty)" and ?d0.0 = "OnePath ''file.txt''" and ?w0.0 = "()"]
  by (simp add: scripted_toolkit_def ok_response_def respond_def)

lemma pick_file_dialog_raises:
  "window_create_file_dialog tk (OPEN_DIALOG m (dialog_filters fts)) w = (Raises e, w') \<Longrightarrow>
   process tk os (PickFileRequest n fts m) (w, fs) = (Inl e, (w', fs))"
  by simp

subsection \<open>Failures of the toolkit while a command is executed\<close>

text \<open>
  When \<open>process\<close> raises, the loop sends the \<open>Response\<close> with the request's id, no
  result and \<open>error=str(e)\<close>, and goes on with the next message.
\<close>

lemma command_failure_reported:
  assumes "process tk os req st = (Inl e, st1)"
  shows "handle_commands tk os (Some req # msgs) st =
           (\<lparr>request_id = cmd_id req, result = PNone, error = Some e\<rparr>
              # fst (handle_commands tk os msgs st1),
            snd (handle_commands tk os msgs st1))"
  using assms by (simp add: reply_def split: prod.splits)

text \<open>The controller raises on such a response when the description is not empty.\<close>

lemma reported_failure_raises:
  assumes "p_is_alive s" and "unpicklable req = None" and "e \<noteq> []"
  shows "fst (send_command req
           (s\<lparr>inbox := [\<lparr>request_id = cmd_id req, result = PNone, error = Some e\<rparr>]\<rparr>))
         = Raised (WebViewException e)"
  using assms by (simp add: send_command_alive)

text \<open>
  C4, at a toolkit whose \<open>evaluate_js\<close> raises an exception with the empty description
  (\<open>str(e) == ''\<close>, as for \<open>Exception()\<close> or a failed \<open>assert\<close>): the worker sends the
  response with \<open>error=''\<close> and no result, and \<open>evaluate_javascript\<close> in the controller
  returns \<open>None\<close> instead of raising, because \<open>if response.error\<close> is false for the empty
  string.
\<close>

theorem empty_failure_description_is_swallowed:
  "handle_commands (scripted_toolkit (Raises []) (Returns NoPath)) posix
      [Some (EvaluateJavascriptRequest 2 ''1+1'')] ((), Map.empty) =
     ([\<lparr>request_id = 2, result = PNone, error = Some []\<rparr>], ((), Map.empty))
   \<and> fst (served (scripted_toolkit (Raises []) (Returns NoPath)) posix
        (CallEvaluateJavascript ''1+1'') (started_controller [], ((), Map.empty)))
     = Returned PNone"
  by (simp add: served_def evaluate_javascript_def send_command_def
      started_controller_def reply_def scripted_toolkit_def)

subsection \<open>\<open>save_file\<close>\<close>




lemma utf8_example:
  "utf8 [104, 233, 8364, 128512] = [0x68, 0xC3, 0xA9, 0xE2, 0x82, 0xAC, 0xF0, 0x9F, 0x98, 0x80]"
  by (simp add: utf8_def utf8_char_def)







text \<open>
  What the other outcomes of the \<open>with open\<close> statement are: bytes are written as they
  are; when \<open>open\<close> raises the request fails and the filesystem is as before; when the
  write fails part of the data may be in the file; text that cannot be encoded leaves the
  file empty.
\<close>

lemma save_file_bytes:
  assumes "window_create_file_dialog tk
             (SAVE_DIALOG name (case dir of None \<Rightarrow> [] | Some d \<Rightarrow> if d \<noteq> [] then d else [])) w
           = (Returns dests, w')"
    and "chosen dests = Some dest"
    and "os_open_error os dest = None" and "os_write_error os dest bs = None"
  shows "process tk os (SaveFileRequest n (BytesContents bs) name dir) (w, fs) =
           (Inr \<lparr>request_id = n, result = PBool True, error = None\<rparr>, (w', fs(dest \<mapsto> bs)))"
  using assms by (simp add: write_binary_file_def write_file_def respond_def)

lemma save_file_open_fails:
  assumes "window_create_file_dialog tk
             (SAVE_DIALOG name (case dir of None \<Rightarrow> [] | Some d \<Rightarrow> if d \<noteq> [] then d else [])) w
           = (Returns dests, w')"
    and "chosen dests = Some dest"
    and "os_open_error os dest = Some e"
  shows "process tk os (SaveFileRequest n x name dir) (w, fs) = (Inl e, (w', fs))"
  using assms
  by (cases x) (simp_all add: write_binary_file_def write_text_file_def write_file_def)

lemma write_file_write_fails:
  "os_open_error os dest = None \<Longrightarrow> os_write_error os dest bs = Some (e, k) \<Longrightarrow>
   write_file os dest (Inr bs) fs = (Some e, fs(dest \<mapsto> take k bs))"
  by (simp add: write_file_def)

lemma write_text_file_unencodable:
  "os_open_error os dest = None \<Longrightarrow> encode_utf8 (write_translate (os_linesep os) t) = Inl e \<Longrightarrow>
   write_text_file os dest t fs = (Some e, fs(dest \<mapsto> []))"
  by (simp add: write_text_file_def write_file_def)

end
